theory Spec2Isabelle
  imports Complex_Main "HOL-Library.Sublist"
begin

section \<open>Python strings\<close>

text \<open>
  A Python \<^verbatim>\<open>str\<close> is modelled as a \<^typ>\<open>string\<close>: each \<^typ>\<open>char\<close> stands for the code
  point with the same number, so the model covers the strings whose code points are below 256.
  The predicates below are the library's behaviour on that range.
\<close>

definition is_space :: "char \<Rightarrow> bool" where
  \<comment> \<open>\<^verbatim>\<open>str.isspace\<close>, the characters \<^verbatim>\<open>str.strip()\<close> removes\<close>
  "is_space c = ((of_char c :: nat) \<in> {9, 10, 11, 12, 13, 28, 29, 30, 31, 32, 133, 160})"

definition float_space :: "char \<Rightarrow> bool" where
  \<comment> \<open>the characters \<^verbatim>\<open>float()\<close> skips around a literal\<close>
  "float_space c = ((of_char c :: nat) \<in> {9, 10, 11, 12, 13, 32, 133, 160})"

definition is_digit :: "char \<Rightarrow> bool" where
  "is_digit c = (48 \<le> (of_char c :: nat) \<and> (of_char c :: nat) \<le> 57)"

definition digit_val :: "char \<Rightarrow> nat" where
  "digit_val c = of_char c - 48"

definition digit_char :: "nat \<Rightarrow> char" where
  "digit_char d = ''0123456789'' ! d"

definition lower_char :: "char \<Rightarrow> char" where
  "lower_char c =
     (let n = (of_char c :: nat)
      in if (65 \<le> n \<and> n \<le> 90) \<or> (192 \<le> n \<and> n \<le> 222 \<and> n \<noteq> 215)
         then char_of (n + 32) else c)"

definition str_lower :: "string \<Rightarrow> string" where
  \<comment> \<open>\<^verbatim>\<open>s.lower()\<close>\<close>
  "str_lower s = map lower_char s"

definition strip_with :: "(char \<Rightarrow> bool) \<Rightarrow> string \<Rightarrow> string" where
  "strip_with p s = rev (dropWhile p (rev (dropWhile p s)))"

definition str_strip :: "string \<Rightarrow> string" where
  \<comment> \<open>\<^verbatim>\<open>s.strip()\<close>\<close>
  "str_strip s = strip_with is_space s"

fun str_in :: "string \<Rightarrow> string \<Rightarrow> bool" where
  \<comment> \<open>\<^verbatim>\<open>q in s\<close> on strings: \<open>q\<close> occurs in \<open>s\<close> as a contiguous block\<close>
  "str_in q [] = (q = [])"
| "str_in q (c # s) = (prefix q (c # s) \<or> str_in q s)"

section \<open>Python floats\<close>

text \<open>
  A \<^verbatim>\<open>float\<close> is a finite value, one of the two infinities, or NaN. Finite values are
  modelled as exact reals: the rounding of binary floating point (and with it overflow,
  underflow and the sign of zero) is outside the model.
\<close>

datatype pyfloat = Fin real | PInf | NInf | NaN

instantiation pyfloat :: comm_monoid_add
begin

definition zero_pyfloat :: pyfloat where
  "zero_pyfloat = Fin 0"

fun plus_pyfloat :: "pyfloat \<Rightarrow> pyfloat \<Rightarrow> pyfloat" where
  "plus_pyfloat (Fin a) (Fin b) = Fin (a + b)"
| "plus_pyfloat (Fin a) PInf = PInf"
| "plus_pyfloat (Fin a) NInf = NInf"
| "plus_pyfloat (Fin a) NaN = NaN"
| "plus_pyfloat PInf (Fin b) = PInf"
| "plus_pyfloat PInf PInf = PInf"
| "plus_pyfloat PInf NInf = NaN"
| "plus_pyfloat PInf NaN = NaN"
| "plus_pyfloat NInf (Fin b) = NInf"
| "plus_pyfloat NInf PInf = NaN"
| "plus_pyfloat NInf NInf = NInf"
| "plus_pyfloat NInf NaN = NaN"
| "plus_pyfloat NaN y = NaN"

instance
proof
  fix u v w :: pyfloat
  show "0 + u = u"
    by (cases u; simp add: zero_pyfloat_def)
  show "u + v = v + u"
    by (cases u; cases v; simp)
  show "u + v + w = u + (v + w)"
    by (cases u; cases v; cases w; simp)
qed

end

definition ge_zero :: "pyfloat \<Rightarrow> bool" where
  \<comment> \<open>\<^verbatim>\<open>v >= 0\<close>; every comparison with NaN is false\<close>
  "ge_zero v = (case v of Fin x \<Rightarrow> 0 \<le> x | PInf \<Rightarrow> True | NInf \<Rightarrow> False | NaN \<Rightarrow> False)"

definition div_count :: "pyfloat \<Rightarrow> nat \<Rightarrow> pyfloat" where
  \<comment> \<open>\<^verbatim>\<open>v / n\<close> for a positive integer \<open>n\<close>\<close>
  "div_count v n = (case v of Fin x \<Rightarrow> Fin (x / real n) | PInf \<Rightarrow> PInf | NInf \<Rightarrow> NInf | NaN \<Rightarrow> NaN)"

subsection \<open>\<^verbatim>\<open>float(s)\<close>\<close>

text \<open>
  The literal grammar of \<^verbatim>\<open>float()\<close>: optional surrounding whitespace, an optional sign, then
  \<^verbatim>\<open>inf\<close>, \<^verbatim>\<open>infinity\<close> or \<^verbatim>\<open>nan\<close> in any case, or a decimal number with an optional
  exponent. A digit part is a run of digits in which single underscores may separate digits.
  \<open>None\<close> stands for \<^verbatim>\<open>ValueError\<close>.
\<close>

fun digitpart_ok :: "string \<Rightarrow> bool" where
  "digitpart_ok [] = False"
| "digitpart_ok [c] = is_digit c"
| "digitpart_ok (c # d # r) =
     (is_digit c \<and> (if d = CHR ''_'' then digitpart_ok r else digitpart_ok (d # r)))"

definition digits_val :: "string \<Rightarrow> nat" where
  "digits_val s = foldl (\<lambda>a c. 10 * a + digit_val c) 0 (filter is_digit s)"

definition digits_count :: "string \<Rightarrow> nat" where
  "digits_count s = length (filter is_digit s)"

definition parse_mantissa :: "string \<Rightarrow> real option" where
  "parse_mantissa m =
     (let ip = takeWhile (\<lambda>c. c \<noteq> CHR ''.'') m;
          fp0 = dropWhile (\<lambda>c. c \<noteq> CHR ''.'') m;
          fp = drop 1 fp0
      in if fp0 = [] then
           (if digitpart_ok ip then Some (real (digits_val ip)) else None)
         else if ip = [] then
           (if digitpart_ok fp then Some (real (digits_val fp) / 10 ^ digits_count fp) else None)
         else if digitpart_ok ip \<and> (fp = [] \<or> digitpart_ok fp) then
           Some (real (digits_val ip) + real (digits_val fp) / 10 ^ digits_count fp)
         else None)"

definition parse_exponent :: "string \<Rightarrow> int option" where
  "parse_exponent x =
     (case x of
        [] \<Rightarrow> None
      | c # r \<Rightarrow>
          if c = CHR ''-'' then (if digitpart_ok r then Some (- int (digits_val r)) else None)
          else if c = CHR ''+'' then (if digitpart_ok r then Some (int (digits_val r)) else None)
          else (if digitpart_ok x then Some (int (digits_val x)) else None))"

definition scale10 :: "real \<Rightarrow> int \<Rightarrow> real" where
  "scale10 m k = (if 0 \<le> k then m * 10 ^ nat k else m / 10 ^ nat (- k))"

definition parse_number :: "string \<Rightarrow> real option" where
  "parse_number s =
     (let not_e = (\<lambda>c. c \<noteq> CHR ''e'' \<and> c \<noteq> CHR ''E'');
          m = takeWhile not_e s;
          x = dropWhile not_e s
      in case parse_mantissa m of
           None \<Rightarrow> None
         | Some v \<Rightarrow>
             (if x = [] then Some v
              else case parse_exponent (drop 1 x) of
                     None \<Rightarrow> None
                   | Some k \<Rightarrow> Some (scale10 v k)))"

definition py_float :: "string \<Rightarrow> pyfloat option" where
  "py_float s0 =
     (let s = strip_with float_space s0;
          neg = (take 1 s = ''-'');
          body = (if take 1 s = ''-'' \<or> take 1 s = ''+'' then drop 1 s else s);
          lb = str_lower body
      in if lb = ''inf'' \<or> lb = ''infinity'' then Some (if neg then NInf else PInf)
         else if lb = ''nan'' then Some NaN
         else case parse_number body of
                None \<Rightarrow> None
              | Some r \<Rightarrow> Some (Fin (if neg then - r else r)))"

subsection \<open>\<^verbatim>\<open>f"{v:.2f}"\<close>\<close>

definition round_half_even :: "real \<Rightarrow> int" where
  "round_half_even y =
     (let f = \<lfloor>y\<rfloor>; d = y - of_int f
      in if d < 1 / 2 then f else if 1 / 2 < d then f + 1 else if even f then f else f + 1)"

fun str_of_nat :: "nat \<Rightarrow> string" where
  "str_of_nat n = (if n < 10 then [digit_char n] else str_of_nat (n div 10) @ [digit_char (n mod 10)])"

declare str_of_nat.simps [simp del]

definition format_2f :: "pyfloat \<Rightarrow> string" where
  "format_2f v =
     (case v of
        NaN \<Rightarrow> ''nan''
      | PInf \<Rightarrow> ''inf''
      | NInf \<Rightarrow> ''-inf''
      | Fin x \<Rightarrow>
          (let q = nat (round_half_even (\<bar>x\<bar> * 100))
           in (if x < 0 then ''-'' else '''') @ str_of_nat (q div 100) @ ''.'' @
              [digit_char (q div 10 mod 10), digit_char (q mod 10)]))"

section \<open>Data model\<close>

datatype error = IndexError | ValueError

record expense =
  amount :: pyfloat
  category :: string
  date :: string
  description :: string

definition to_row :: "expense \<Rightarrow> string list" where
  "to_row e = [date e, category e, format_2f (amount e), description e]"


section \<open>Validation\<close>

subsection \<open>\<^verbatim>\<open>datetime.strptime(s, "%Y-%m-%d")\<close>\<close>

text \<open>
  The library turns the format into the regular expression
  \<^verbatim>\<open>(\d\d\d\d)-(1[0-2]|0[1-9]|[1-9])-(3[0-1]|[1-2]\d|0[1-9]|[1-9]| [1-9])\<close>,
  matches it at the start of the string, refuses input left over after the match, and then builds
  the date, which refuses a year below 1 and a day beyond the month's length. An alternation takes
  its first alternative that matches; for the month no later alternative can succeed where an
  earlier one fails at the following hyphen.
\<close>

definition nonzero_digit :: "char \<Rightarrow> bool" where
  "nonzero_digit c = (is_digit c \<and> c \<noteq> CHR ''0'')"

definition match_month :: "string \<Rightarrow> (nat \<times> string) option" where
  "match_month s =
     (if 2 \<le> length s \<and> s ! 0 = CHR ''1'' \<and> s ! 1 \<in> set ''012''
        then Some (10 + digit_val (s ! 1), drop 2 s)
      else if 2 \<le> length s \<and> s ! 0 = CHR ''0'' \<and> nonzero_digit (s ! 1)
        then Some (digit_val (s ! 1), drop 2 s)
      else if 1 \<le> length s \<and> nonzero_digit (s ! 0)
        then Some (digit_val (s ! 0), drop 1 s)
      else None)"

definition match_day :: "string \<Rightarrow> (nat \<times> string) option" where
  "match_day s =
     (if 2 \<le> length s \<and> s ! 0 = CHR ''3'' \<and> s ! 1 \<in> set ''01''
        then Some (30 + digit_val (s ! 1), drop 2 s)
      else if 2 \<le> length s \<and> s ! 0 \<in> set ''12'' \<and> is_digit (s ! 1)
        then Some (10 * digit_val (s ! 0) + digit_val (s ! 1), drop 2 s)
      else if 2 \<le> length s \<and> s ! 0 = CHR ''0'' \<and> nonzero_digit (s ! 1)
        then Some (digit_val (s ! 1), drop 2 s)
      else if 1 \<le> length s \<and> nonzero_digit (s ! 0)
        then Some (digit_val (s ! 0), drop 1 s)
      else if 2 \<le> length s \<and> s ! 0 = CHR '' '' \<and> nonzero_digit (s ! 1)
        then Some (digit_val (s ! 1), drop 2 s)
      else None)"

definition is_leap :: "nat \<Rightarrow> bool" where
  "is_leap y = (y mod 4 = 0 \<and> (y mod 100 \<noteq> 0 \<or> y mod 400 = 0))"

definition days_in_month :: "nat \<Rightarrow> nat \<Rightarrow> nat" where
  "days_in_month y m =
     (if m = 2 \<and> is_leap y then 29
      else [31, 28, 31, 30, 31, 30, 31, 31, 30, 31, 30, 31] ! (m - 1))"

definition strptime_ymd :: "string \<Rightarrow> error + (nat \<times> nat \<times> nat)" where
  "strptime_ymd s =
     (if \<not> (5 \<le> length s \<and> list_all is_digit (take 4 s) \<and> s ! 4 = CHR ''-'') then Inl ValueError
      else (case match_month (drop 5 s) of
              None \<Rightarrow> Inl ValueError
            | Some (m, r) \<Rightarrow>
                (if take 1 r \<noteq> ''-'' then Inl ValueError
                 else (case match_day (drop 1 r) of
                         None \<Rightarrow> Inl ValueError
                       | Some (d, rest) \<Rightarrow>
                           (if rest \<noteq> [] then Inl ValueError
                            else (let y = digits_val (take 4 s)
                                  in if y < 1 \<or> days_in_month y m < d then Inl ValueError
                                     else Inr (y, m, d)))))))"

definition valid_date :: "string \<Rightarrow> bool" where
  "valid_date s = (case strptime_ymd s of Inr _ \<Rightarrow> True | Inl _ \<Rightarrow> False)"

definition valid_amount :: "string \<Rightarrow> bool" where
  "valid_amount s = (case py_float s of Some v \<Rightarrow> ge_zero v | None \<Rightarrow> False)"

section \<open>File operations\<close>

text \<open>
  The store is the CSV file, read and written through the \<^verbatim>\<open>csv\<close> module: it is modelled by
  the rows that \<^verbatim>\<open>csv.reader\<close> yields and \<^verbatim>\<open>csv.writer\<close> receives, \<open>None\<close> when the file
  does not exist. Every operation takes the store and returns the new one.
\<close>

type_synonym store = "string list list option"

definition CSV_HEADER :: "string list" where
  "CSV_HEADER = [''Date'', ''Category'', ''Amount'', ''Description'']"

definition CATEGORIES :: "string list" where
  "CATEGORIES = [''Food'', ''Transport'', ''Entertainment'', ''Shopping'', ''Bills'', ''Health'',
     ''Education'', ''Other'']"

definition ensure_data_file :: "store \<Rightarrow> store" where
  "ensure_data_file s = (case s of None \<Rightarrow> Some [CSV_HEADER] | Some rows \<Rightarrow> Some rows)"




definition append_expense :: "expense \<Rightarrow> store \<Rightarrow> store" where
  "append_expense e s =
     (case ensure_data_file s of
        Some rows \<Rightarrow> Some (rows @ [to_row e])
      | None \<Rightarrow> None)"

section \<open>Reporting\<close>

definition py_sum :: "pyfloat list \<Rightarrow> pyfloat" where
  \<comment> \<open>the builtin \<^verbatim>\<open>sum\<close>: start at 0, add from left to right\<close>
  "py_sum xs = foldl (+) 0 xs"

definition total_expense :: "expense list \<Rightarrow> pyfloat" where
  "total_expense expenses = py_sum (map amount expenses)"

definition average_expense :: "expense list \<Rightarrow> pyfloat" where
  "average_expense expenses =
     (if expenses = [] then Fin 0
      else div_count (total_expense expenses) (length expenses))"




section \<open>Flows\<close>

text \<open>
  Each \<^verbatim>\<open>input()\<close> call takes the next line of the input; \<open>None\<close> is the \<^verbatim>\<open>EOFError\<close> of an
  exhausted input. \<open>today\<close> is what \<^verbatim>\<open>datetime.now().strftime("%Y-%m-%d")\<close> returns.
\<close>

fun read_amount :: "string list \<Rightarrow> (string \<times> string list) option" where
  "read_amount [] = None"
| "read_amount (l # ls) =
     (let amt = str_strip l in if valid_amount amt then Some (amt, ls) else read_amount ls)"

definition add_category :: "string \<Rightarrow> string" where
  "add_category l =
     (let cat = (if str_strip l = [] then ''Other'' else str_strip l)
      in if cat \<notin> set CATEGORIES then ''Other'' else cat)"

fun read_date :: "string \<Rightarrow> string list \<Rightarrow> (string \<times> string list) option" where
  "read_date today [] = None"
| "read_date today (l # ls) =
     (let d = str_strip l
      in if d = [] then Some (today, ls)
         else if valid_date d then Some (d, ls)
         else read_date today ls)"

definition add_expense_flow :: "string \<Rightarrow> string list \<Rightarrow> store \<Rightarrow> (store \<times> string list) option" where
  "add_expense_flow today inp s =
     (case read_amount inp of
        None \<Rightarrow> None
      | Some (amt, inp1) \<Rightarrow>
          (case inp1 of
             [] \<Rightarrow> None
           | l_cat # inp2 \<Rightarrow>
               (case read_date today inp2 of
                  None \<Rightarrow> None
                | Some (d, inp3) \<Rightarrow>
                    (case inp3 of
                       [] \<Rightarrow> None
                     | l_desc # inp4 \<Rightarrow>
                         (case py_float amt of
                            None \<Rightarrow> None
                          | Some a \<Rightarrow>
                              Some (append_expense
                                      \<lparr>amount = a, category = add_category l_cat, date = d,
                                       description = str_strip l_desc\<rparr> s,
                                    inp4))))))"

datatype search_result = Empty_query | No_matches | Found "expense list"

definition search_expenses_flow :: "string \<Rightarrow> expense list \<Rightarrow> search_result" where
  "search_expenses_flow l expenses =
     (let q = str_lower (str_strip l)
      in if q = [] then Empty_query
         else let results = filter (\<lambda>e. str_in q (str_lower (category e)) \<or>
                                         str_in q (str_lower (description e)) \<or>
                                         str_in q (date e)) expenses
              in if results = [] then No_matches else Found results)"

definition edit_fields :: "expense \<Rightarrow> string \<Rightarrow> string \<Rightarrow> string \<Rightarrow> string \<Rightarrow> expense" where
  \<comment> \<open>the four prompts of the edit flow and the updates they make to the chosen record\<close>
  "edit_fields e l_amt l_cat l_date l_desc =
     (let new_amt = str_strip l_amt;
          new_cat = str_strip l_cat;
          new_date = str_strip l_date;
          new_desc = str_strip l_desc;
          e1 = (if new_amt \<noteq> [] then
                  (case py_float new_amt of
                     Some a \<Rightarrow> if ge_zero a then e\<lparr>amount := a\<rparr> else e
                   | None \<Rightarrow> e)
                else e);
          e2 = (if new_cat \<noteq> [] then
                  e1\<lparr>category := (if new_cat \<in> set CATEGORIES then new_cat else ''Other'')\<rparr>
                else e1);
          e3 = (if new_date \<noteq> [] then (if valid_date new_date then e2\<lparr>date := new_date\<rparr> else e2)
                else e2)
      in if new_desc \<noteq> [] then e3\<lparr>description := new_desc\<rparr> else e3)"

section \<open>Notions of the specification\<close>

text \<open>
  The specification's reading of a date: the text has the fixed shape \<^verbatim>\<open>YYYY-MM-DD\<close>, the
  month is in 01-12 and the day exists in that month of that year.
\<close>

definition ymd_shape :: "string \<Rightarrow> bool" where
  "ymd_shape s =
     (length s = 10 \<and> list_all is_digit (take 4 s) \<and> s ! 4 = CHR ''-'' \<and>
      list_all is_digit (take 2 (drop 5 s)) \<and> s ! 7 = CHR ''-'' \<and> list_all is_digit (drop 8 s))"

definition is_yyyy_mm_dd :: "string \<Rightarrow> bool" where
  "is_yyyy_mm_dd s =
     (ymd_shape s \<and>
      (let y = digits_val (take 4 s);
           m = digits_val (take 2 (drop 5 s));
           d = digits_val (drop 8 s)
       in 1 \<le> m \<and> m \<le> 12 \<and> 1 \<le> d \<and> d \<le> days_in_month y m))"


text \<open>The characters that can occur in a date accepted by \<open>valid_date\<close>.\<close>

definition date_char :: "char \<Rightarrow> bool" where
  "date_char c = (is_digit c \<or> c = CHR ''-'' \<or> c = CHR '' '')"

section \<open>Properties of the reports\<close>

lemma foldl_plus_sum_list: "foldl (+) a xs = a + sum_list (xs :: pyfloat list)"
  by (induction xs arbitrary: a) (simp_all add: add.assoc)

lemma py_sum_sum_list: "py_sum xs = sum_list xs"
  by (simp add: py_sum_def foldl_plus_sum_list)

lemma sum_list_Fin: "sum_list (map Fin rs) = Fin (sum_list rs)"
  by (induction rs) (simp_all add: zero_pyfloat_def)

text \<open>
  Claim C6. \<open>total_expense\<close> is the sum of the amounts and is 0 for the empty list;
  \<open>average_expense\<close> is the total divided by the number of records for a non-empty list and 0
  for the empty list. When every amount is finite, both are the corresponding real numbers.
\<close>

theorem total_average_expense:
  "total_expense es = sum_list (map amount es) \<and>
   total_expense [] = Fin 0 \<and>
   average_expense [] = Fin 0 \<and>
   (es \<noteq> [] \<longrightarrow> average_expense es = div_count (total_expense es) (length es)) \<and>
   (es \<noteq> [] \<and> map amount es = map Fin rs \<longrightarrow>
      total_expense es = Fin (sum_list rs) \<and>
      average_expense es = Fin (sum_list rs / real (length es)))"
  by (simp add: total_expense_def average_expense_def py_sum_sum_list sum_list_Fin
      div_count_def zero_pyfloat_def)

theorem total_average_expense_witness:
  "[\<lparr>amount = Fin 3, category = ''Food'', date = ''2024-01-01'', description = ''''\<rparr>,
    \<lparr>amount = Fin 4.5, category = ''Bills'', date = ''2024-01-02'', description = ''x''\<rparr>] \<noteq> [] \<and>
   total_expense
     [\<lparr>amount = Fin 3, category = ''Food'', date = ''2024-01-01'', description = ''''\<rparr>,
      \<lparr>amount = Fin 4.5, category = ''Bills'', date = ''2024-01-02'', description = ''x''\<rparr>] = Fin 7.5 \<and>
   average_expense
     [\<lparr>amount = Fin 3, category = ''Food'', date = ''2024-01-01'', description = ''''\<rparr>,
      \<lparr>amount = Fin 4.5, category = ''Bills'', date = ''2024-01-02'', description = ''x''\<rparr>] = Fin 3.75"
  using total_average_expense
    [of "[\<lparr>amount = Fin 3, category = ''Food'', date = ''2024-01-01'', description = ''''\<rparr>,
          \<lparr>amount = Fin 4.5, category = ''Bills'', date = ''2024-01-02'', description = ''x''\<rparr>]"
        "[3, 4.5]"]
  by (simp add: div_count_def)
















section \<open>Properties of loading\<close>

lemma map_filter_append: "List.map_filter f (xs @ ys) = List.map_filter f xs @ List.map_filter f ys"
  by (simp add: List.map_filter_def)





section \<open>Properties of the validators\<close>

lemma is_digit_cases: "is_digit c \<longleftrightarrow> c \<in> set ''0123456789''"
proof
  assume "is_digit c"
  then have "(of_char c :: nat) = of_char (CHR ''0'') \<or> (of_char c :: nat) = of_char (CHR ''1'') \<or>
      (of_char c :: nat) = of_char (CHR ''2'') \<or> (of_char c :: nat) = of_char (CHR ''3'') \<or>
      (of_char c :: nat) = of_char (CHR ''4'') \<or> (of_char c :: nat) = of_char (CHR ''5'') \<or>
      (of_char c :: nat) = of_char (CHR ''6'') \<or> (of_char c :: nat) = of_char (CHR ''7'') \<or>
      (of_char c :: nat) = of_char (CHR ''8'') \<or> (of_char c :: nat) = of_char (CHR ''9'')"
    unfolding is_digit_def by (simp del: of_char_eq_iff) arith
  then show "c \<in> set ''0123456789''"
    unfolding of_char_eq_iff by simp
next
  assume "c \<in> set ''0123456789''"
  then show "is_digit c"
    by (auto simp: is_digit_def)
qed

lemma char_eq_code: "(c = d) = ((of_char c :: nat) = of_char d)"
  by simp















text \<open>
  Outside that shape the library's pattern also takes a month or a day written with one digit,
  and a day written as a space and a digit.
\<close>

lemma valid_date_unpadded:
  "valid_date ''2024-1-5''" "valid_date ''2024-01- 5''"
  "\<not> is_yyyy_mm_dd ''2024-1-5''" "\<not> is_yyyy_mm_dd ''2024-01- 5''"
  by (simp_all add: is_yyyy_mm_dd_def ymd_shape_def valid_date_def strptime_ymd_def
      match_month_def match_day_def nonzero_digit_def is_digit_def digit_val_def digits_val_def
      days_in_month_def is_leap_def)

lemma take_one_nth: "1 \<le> length t \<Longrightarrow> take (Suc 0) t = [t ! 0]"
  by (cases t) simp_all

lemma take_two_nth: "2 \<le> length t \<Longrightarrow> take 2 t = [t ! 0, t ! 1]"
  by (cases t; cases "tl t") simp_all

lemma match_month_chars:
  assumes "match_month t = Some (m, r)"
  shows "\<exists>p. t = p @ r \<and> list_all date_char p"
proof -
  from assms consider
      (two) "2 \<le> length t" "is_digit (t ! 0)" "is_digit (t ! 1)" "r = drop 2 t"
    | (one) "1 \<le> length t" "is_digit (t ! 0)" "r = drop 1 t"
    by (auto simp add: match_month_def nonzero_digit_def is_digit_def char_eq_code
        simp del: of_char_eq_iff split: if_splits)
  then show ?thesis
  proof cases
    case two
    then have "t = take 2 t @ r" and "list_all date_char (take 2 t)"
      by (simp, simp add: take_two_nth date_char_def)
    then show ?thesis by blast
  next
    case one
    then have "t = take 1 t @ r" and "list_all date_char (take 1 t)"
      by (simp, simp add: take_one_nth date_char_def)
    then show ?thesis by blast
  qed
qed

lemma match_day_chars:
  assumes "match_day t = Some (d, r)"
  shows "\<exists>p. t = p @ r \<and> list_all date_char p"
proof -
  from assms consider
      (two) "2 \<le> length t" "date_char (t ! 0)" "date_char (t ! 1)" "r = drop 2 t"
    | (one) "1 \<le> length t" "date_char (t ! 0)" "r = drop 1 t"
    by (auto simp add: match_day_def nonzero_digit_def is_digit_def date_char_def char_eq_code
        simp del: of_char_eq_iff split: if_splits)
  then show ?thesis
  proof cases
    case two
    then have "t = take 2 t @ r" and "list_all date_char (take 2 t)"
      by (simp, simp add: take_two_nth)
    then show ?thesis by blast
  next
    case one
    then have "t = take 1 t @ r" and "list_all date_char (take 1 t)"
      by (simp, simp add: take_one_nth)
    then show ?thesis by blast
  qed
qed

lemma valid_date_parts:
  assumes "valid_date s"
  obtains m r d where "5 \<le> length s" "list_all is_digit (take 4 s)" "s ! 4 = CHR ''-''"
    "match_month (drop 5 s) = Some (m, r)" "take 1 r = ''-''"
    "match_day (drop 1 r) = Some (d, [])"
proof -
  have h: "5 \<le> length s \<and> list_all is_digit (take 4 s) \<and> s ! 4 = CHR ''-''"
    using assms
    by (cases "5 \<le> length s \<and> list_all is_digit (take 4 s) \<and> s ! 4 = CHR ''-''")
      (simp_all add: valid_date_def strptime_ymd_def)
  show thesis
  proof (cases "match_month (drop 5 s)")
    case None
    with assms h show thesis
      by (simp add: valid_date_def strptime_ymd_def)
  next
    case (Some mr)
    obtain m r where mr: "mr = (m, r)"
      by (cases mr)
    have sep: "take 1 r = ''-''"
      using assms h Some mr
      by (cases "take 1 r = ''-''") (simp_all add: valid_date_def strptime_ymd_def)
    show thesis
    proof (cases "match_day (drop 1 r)")
      case None
      with assms h Some mr sep show thesis
        by (simp add: valid_date_def strptime_ymd_def)
    next
      case day: (Some dr)
      obtain d rest where dr: "dr = (d, rest)"
        by (cases dr)
      have "rest = []"
        using assms h Some mr sep day dr
        by (cases "rest = []") (simp_all add: valid_date_def strptime_ymd_def)
      with that h Some mr sep day dr show thesis
        by simp
    qed
  qed
qed

lemma valid_date_chars:
  assumes "valid_date s"
  shows "list_all date_char s"
proof -
  from assms obtain m r d where
    h: "5 \<le> length s" "list_all is_digit (take 4 s)" "s ! 4 = CHR ''-''"
    and mm: "match_month (drop 5 s) = Some (m, r)"
    and sep: "take 1 r = ''-''"
    and md: "match_day (drop 1 r) = Some (d, [])"
    by (rule valid_date_parts)
  from match_month_chars [OF mm] obtain p where p: "drop 5 s = p @ r" "list_all date_char p"
    by blast
  from match_day_chars [OF md] obtain q where q: "drop 1 r = q @ []" "list_all date_char q"
    by blast
  have y: "list_all date_char (take 4 s)"
    using h(2) by (simp add: list_all_iff date_char_def)
  have r: "list_all date_char r"
  proof -
    from sep have sep': "take (Suc 0) r = ''-''"
      by simp
    have "list_all date_char (take 1 r @ drop 1 r)"
      unfolding list_all_append using q by (simp add: sep' date_char_def)
    then show ?thesis by simp
  qed
  have eq: "take 4 s @ [s ! 4] @ drop 5 s = s"
  proof -
    have "s ! 4 # drop (Suc 4) s = drop 4 s"
      using h(1) by (intro Cons_nth_drop_Suc) simp
    then have "take 4 s @ [s ! 4] @ drop 5 s = take 4 s @ drop 4 s"
      by simp
    then show ?thesis
      by simp
  qed
  have "list_all date_char (take 4 s @ [s ! 4] @ drop 5 s)"
    unfolding list_all_append p(1) using y p(2) r by (simp add: h(3) date_char_def)
  from this [unfolded eq] show ?thesis .
qed



section \<open>Properties of the flows\<close>

lemma category_label_strip: "l \<in> set CATEGORIES \<Longrightarrow> str_strip l = l"
  by (auto simp: CATEGORIES_def str_strip_def strip_with_def is_space_def)

text \<open>
  Claim C8, amended. Both flows strip the input first. An input equal to a category label is
  kept; more generally an input whose stripped text is a label resolves to that label. Every other
  non-blank input resolves to \<^verbatim>\<open>Other\<close>. A blank input gives \<^verbatim>\<open>Other\<close> in the add flow and
  keeps the current category in the edit flow.
\<close>

theorem category_resolution:
  "(l \<in> set CATEGORIES \<longrightarrow>
      add_category l = l \<and> category (edit_fields e l_amt l l_date l_desc) = l) \<and>
   (str_strip l \<in> set CATEGORIES \<longrightarrow>
      add_category l = str_strip l \<and>
      category (edit_fields e l_amt l l_date l_desc) = str_strip l) \<and>
   (str_strip l \<noteq> [] \<and> str_strip l \<notin> set CATEGORIES \<longrightarrow>
      add_category l = ''Other'' \<and>
      category (edit_fields e l_amt l l_date l_desc) = ''Other'') \<and>
   (str_strip l = [] \<longrightarrow>
      add_category l = ''Other'' \<and>
      category (edit_fields e l_amt l l_date l_desc) = category e)"
proof -
  have other: "''Other'' \<in> set CATEGORIES"
    by (simp add: CATEGORIES_def)
  have nonempty: "c \<noteq> []" if "c \<in> set CATEGORIES" for c
    using that by (auto simp: CATEGORIES_def)
  have add: "add_category l =
      (if str_strip l = [] then ''Other''
       else if str_strip l \<in> set CATEGORIES then str_strip l else ''Other'')"
    using other by (simp add: add_category_def Let_def)
  have edit: "category (edit_fields e l_amt l l_date l_desc) =
      (if str_strip l = [] then category e
       else if str_strip l \<in> set CATEGORIES then str_strip l else ''Other'')"
    by (simp add: edit_fields_def Let_def split: option.splits)
  show ?thesis
    using nonempty [of "str_strip l"] nonempty [of l] category_label_strip [of l]
    by (auto simp: add edit)
qed

theorem category_resolution_witness:
  "''Bills'' \<in> set CATEGORIES \<and> add_category ''Bills'' = ''Bills'' \<and>
   str_strip ''  pets '' \<noteq> [] \<and> str_strip ''  pets '' \<notin> set CATEGORIES \<and>
   add_category ''  pets '' = ''Other'' \<and>
   category (edit_fields
     \<lparr>amount = Fin 3, category = ''Food'', date = ''2024-01-01'', description = ''''\<rparr>
     '''' ''  pets '' '''' '''') = ''Other''"
proof -
  have a: "''Bills'' \<in> set CATEGORIES"
    by (simp add: CATEGORIES_def)
  have s: "str_strip ''  pets '' = ''pets''"
    by (simp add: str_strip_def strip_with_def is_space_def)
  have b: "str_strip ''  pets '' \<noteq> [] \<and> str_strip ''  pets '' \<notin> set CATEGORIES"
    by (simp add: s CATEGORIES_def)
  show ?thesis
    using a b
      category_resolution [of "''Bills''"
        "\<lparr>amount = Fin 3, category = ''Food'', date = ''2024-01-01'', description = ''''\<rparr>"
        "''''" "''''" "''''"]
      category_resolution [of "''  pets ''"
        "\<lparr>amount = Fin 3, category = ''Food'', date = ''2024-01-01'', description = ''''\<rparr>"
        "''''" "''''" "''''"]
    by simp
qed

text \<open>
  A label with a leading space is not equal to any label and is not blank, yet both flows resolve
  it to the label, not to \<^verbatim>\<open>Other\<close>.
\<close>

theorem category_resolution_counterexample:
  "'' Food'' \<notin> set CATEGORIES \<and> \<not> list_all is_space '' Food'' \<and>
   add_category '' Food'' = ''Food'' \<and>
   category (edit_fields
     \<lparr>amount = Fin 3, category = ''Bills'', date = ''2024-01-01'', description = ''''\<rparr>
     '''' '' Food'' '''' '''') = ''Food''"
  by (simp add: CATEGORIES_def add_category_def edit_fields_def str_strip_def strip_with_def
      is_space_def)

lemma str_in_sublist: "str_in q s \<longleftrightarrow> sublist q s"
  by (induction s) (simp_all add: sublist_Cons_right)

lemma sublist_map_iff: "sublist q (map f s) \<longleftrightarrow> (\<exists>m. sublist m s \<and> map f m = q)"
  using sublist_map_rightE [of q f s] map_mono_sublist [of _ s f]
  by auto

lemma lower_char_plain:
  assumes "lower_char u = c" and "is_digit c \<or> c = CHR ''-'' \<or> c = CHR '' ''"
  shows "u = c"
proof (cases "lower_char u = u")
  case True
  with assms show ?thesis by simp
next
  case False
  then have up: "(65 \<le> (of_char u :: nat) \<and> (of_char u :: nat) \<le> 90) \<or>
      (192 \<le> (of_char u :: nat) \<and> (of_char u :: nat) \<le> 222)"
    and low: "lower_char u = char_of ((of_char u :: nat) + 32)"
    by (auto simp: lower_char_def Let_def split: if_splits)
  have "(of_char (lower_char u) :: nat) = ((of_char u :: nat) + 32) mod 256"
    by (simp only: low of_char_of)
  with up have code: "97 \<le> (of_char (lower_char u) :: nat)"
    by auto
  from assms(2) have "(of_char c :: nat) \<le> 57"
    by (auto simp: is_digit_def)
  with code assms(1) show ?thesis
    by simp
qed

lemma sublist_lower_plain:
  assumes "sublist (str_lower q) d"
    and "\<forall>c \<in> set d. is_digit c \<or> c = CHR ''-'' \<or> c = CHR '' ''"
  shows "str_lower q = q"
proof -
  from assms(1) have "set (str_lower q) \<subseteq> set d"
    by (rule set_mono_sublist)
  with assms(2) have "\<forall>u \<in> set q. lower_char u = u"
    by (auto simp: str_lower_def intro: lower_char_plain [symmetric])
  then show ?thesis
    by (simp add: str_lower_def map_idI)
qed

lemma lower_char_date: "date_char c \<Longrightarrow> lower_char c = c"
  by (auto simp: date_char_def lower_char_def is_digit_def)

lemma sublist_date_lower:
  assumes "list_all date_char d"
  shows "sublist (str_lower q) d \<longleftrightarrow> sublist q d"
proof
  assume l: "sublist (str_lower q) d"
  from assms have "\<forall>c \<in> set d. is_digit c \<or> c = CHR ''-'' \<or> c = CHR '' ''"
    by (simp add: list_all_iff date_char_def)
  with l have "str_lower q = q"
    by (rule sublist_lower_plain)
  with l show "sublist q d"
    by simp
next
  assume r: "sublist q d"
  then have "set q \<subseteq> set d"
    by (rule set_mono_sublist)
  with assms have "\<forall>c \<in> set q. lower_char c = c"
    by (auto simp: list_all_iff lower_char_date)
  then have "str_lower q = q"
    by (simp add: str_lower_def map_idI)
  with r show "sublist (str_lower q) d"
    by simp
qed

text \<open>
  Claim C9, amended. The search strips the query and puts it in lower case. When nothing is left,
  it reports an empty query and selects nothing. Otherwise it selects, in list order, the records
  for which the stripped query occurs in the category or in the description up to case, or the
  lower-cased stripped query occurs in the date; for a date that \<open>valid_date\<close> accepts the last
  condition is that the stripped query occurs in the date.
\<close>

theorem search_expenses_selects:
  "(str_strip l = [] \<longrightarrow> search_expenses_flow l es = Empty_query) \<and>
   (str_strip l \<noteq> [] \<longrightarrow>
      (let rs = filter
             (\<lambda>e. (\<exists>m. sublist m (category e) \<and> str_lower m = str_lower (str_strip l)) \<or>
                  (\<exists>m. sublist m (description e) \<and> str_lower m = str_lower (str_strip l)) \<or>
                  sublist (str_lower (str_strip l)) (date e)) es
       in search_expenses_flow l es = (if rs = [] then No_matches else Found rs))) \<and>
   (valid_date d \<longrightarrow> (sublist (str_lower (str_strip l)) d \<longleftrightarrow> sublist (str_strip l) d))"
proof -
  have sel: "sublist (str_lower q) (str_lower s) \<longleftrightarrow> (\<exists>m. sublist m s \<and> str_lower m = str_lower q)"
    for q s
    unfolding str_lower_def by (rule sublist_map_iff)
  have empty: "str_lower q = [] \<longleftrightarrow> q = []" for q
    by (simp add: str_lower_def)
  have flt: "filter (\<lambda>e. str_in (str_lower (str_strip l)) (str_lower (category e)) \<or>
                 str_in (str_lower (str_strip l)) (str_lower (description e)) \<or>
                 str_in (str_lower (str_strip l)) (date e)) es =
        filter (\<lambda>e. (\<exists>m. sublist m (category e) \<and> str_lower m = str_lower (str_strip l)) \<or>
                  (\<exists>m. sublist m (description e) \<and> str_lower m = str_lower (str_strip l)) \<or>
                  sublist (str_lower (str_strip l)) (date e)) es"
    by (rule filter_cong) (simp_all add: sel str_in_sublist)
  have dates: "sublist (str_lower (str_strip l)) d \<longleftrightarrow> sublist (str_strip l) d" if "valid_date d"
    using that by (intro sublist_date_lower valid_date_chars)
  show ?thesis
    using dates by (simp add: search_expenses_flow_def Let_def empty flt)
qed

text \<open>
  A query of one space is not empty and occurs in the description \<^verbatim>\<open>a b\<close>, yet the record is
  not selected: the query is stripped first.
\<close>

theorem search_expenses_blank_counterexample:
  "'' '' \<noteq> [] \<and>
   str_in '' '' (description
     \<lparr>amount = Fin 3, category = ''Food'', date = ''2024-01-01'', description = ''a b''\<rparr>) \<and>
   search_expenses_flow '' ''
     [\<lparr>amount = Fin 3, category = ''Food'', date = ''2024-01-01'', description = ''a b''\<rparr>] =
     Empty_query"
  by (simp add: search_expenses_flow_def str_strip_def strip_with_def is_space_def str_lower_def)

theorem search_expenses_selects_witness:
  "str_strip ''  '' = [] \<and>
   search_expenses_flow ''  ''
     [\<lparr>amount = Fin 3, category = ''Food'', date = ''2024-01-01'', description = ''a b''\<rparr>] =
     Empty_query \<and>
   str_strip '' FO '' \<noteq> [] \<and>
   search_expenses_flow '' FO ''
     [\<lparr>amount = Fin 3, category = ''Food'', date = ''2024-01-01'', description = ''a b''\<rparr>] =
     Found [\<lparr>amount = Fin 3, category = ''Food'', date = ''2024-01-01'', description = ''a b''\<rparr>] \<and>
   valid_date ''2024-01-01''"
proof -
  have blank: "str_strip ''  '' = []"
    by (simp add: str_strip_def strip_with_def is_space_def)
  have query: "str_strip '' FO '' = ''FO''"
    by (simp add: str_strip_def strip_with_def is_space_def)
  have low: "str_lower ''FO'' = ''fo''" "str_lower ''Fo'' = ''fo''"
    by (simp_all add: str_lower_def lower_char_def char_of_def bit_0)
  have "sublist ''Fo'' ''Food''"
    by (simp add: str_in_sublist [symmetric])
  with low have hit: "\<exists>m. sublist m ''Food'' \<and> str_lower m = ''fo''"
    by blast
  have vd: "valid_date ''2024-01-01''"
    by (simp add: valid_date_def strptime_ymd_def match_month_def match_day_def
        nonzero_digit_def is_digit_def digit_val_def digits_val_def days_in_month_def)
  show ?thesis
    using blank vd hit
      search_expenses_selects [of "''  ''"
        "[\<lparr>amount = Fin 3, category = ''Food'', date = ''2024-01-01'', description = ''a b''\<rparr>]"
        "''2024-01-01''"]
      search_expenses_selects [of "'' FO ''"
        "[\<lparr>amount = Fin 3, category = ''Food'', date = ''2024-01-01'', description = ''a b''\<rparr>]"
        "''2024-01-01''"]
    by (simp add: query low Let_def)
qed

section \<open>The row encoding and the store round trip\<close>




































end
